theory Spec2Isabelle
  imports Main "HOL-Library.Sublist"
begin

section \<open>Hotkey patterns: parsing, matching, sequence recognition, formatting\<close>

text \<open>
  A shallow embedding of \<^verbatim>\<open>src/hotkeys-patterns.ts\<close>. The second copy of the module (the one
  with \<^verbatim>\<open>parseSinglePattern\<close>, \<^verbatim>\<open>toComparableEventKey\<close> and \<^verbatim>\<open>detectOperatingSystem\<close>)
  differs from it in names, in how the platform is detected, and in one redundant branch of
  \<^verbatim>\<open>normalizeKeyName\<close>; the parser, the matcher, the sequence handler and the formatter are the
  same code, statement for statement.

  Conventions of the model.
  \<^item> A JavaScript string is a \<^typ>\<open>string\<close>. The model is exact on ASCII text: characters
    outside ASCII are carried through unchanged (no case mapping, never white space), and the
    symbol glyphs of the formatter are written as their UTF-8 bytes.
  \<^item> \<^verbatim>\<open>navigator.platform\<close> is an explicit argument \<open>nav\<close>, \<open>None\<close> when
    \<^verbatim>\<open>navigator\<close> is undefined. An environment whose \<^verbatim>\<open>navigator\<close> is an object without a
    string \<^verbatim>\<open>platform\<close> makes \<^verbatim>\<open>detectPlatform\<close> throw; the parser is modelled a second
    time with that environment as an input and the error as a result
    (\<open>detectPlatformEnv\<close>, \<open>parseSingleEnv\<close>, \<open>parsePatternEnv\<close>).
  \<^item> An options argument that is left out is the record with every field \<open>None\<close>:
    the source reads options only through \<^verbatim>\<open>options?.field ?? default\<close>.
  \<^item> A \<^verbatim>\<open>TypeError\<close> of the source is the value \<open>Inl TypeError\<close>.
  \<^item> \<^verbatim>\<open>sequenceTimeoutMs\<close> is a whole number of milliseconds, and time is a logical clock:
    an input is a key event or a stretch of idle time. The callback \<^verbatim>\<open>handler\<close> given to
    \<^verbatim>\<open>createHotkeyHandler\<close> returns normally.
\<close>

subsection \<open>Strings\<close>

definition isUpper :: "char \<Rightarrow> bool" where
  "isUpper c = (let n = (of_char c :: nat) in 65 \<le> n \<and> n \<le> 90)"

definition isLower :: "char \<Rightarrow> bool" where
  "isLower c = (let n = (of_char c :: nat) in 97 \<le> n \<and> n \<le> 122)"

text \<open>An ASCII letter changes case by its bit of weight 32.\<close>

definition toLowerChar :: "char \<Rightarrow> char" where
  "toLowerChar c =
     (if isUpper c
      then (case c of Char b0 b1 b2 b3 b4 b5 b6 b7 \<Rightarrow> Char b0 b1 b2 b3 b4 True b6 b7)
      else c)"

definition toUpperChar :: "char \<Rightarrow> char" where
  "toUpperChar c =
     (if isLower c
      then (case c of Char b0 b1 b2 b3 b4 b5 b6 b7 \<Rightarrow> Char b0 b1 b2 b3 b4 False b6 b7)
      else c)"

definition toLowerCase :: "string \<Rightarrow> string" where
  "toLowerCase s = map toLowerChar s"


text \<open>White space of \<^verbatim>\<open>String.prototype.trim\<close>, within ASCII: tab, line feed, vertical tab,
  form feed, carriage return, space.\<close>

definition isSpace :: "char \<Rightarrow> bool" where
  "isSpace c = (let n = (of_char c :: nat) in (9 \<le> n \<and> n \<le> 13) \<or> n = 32)"

definition trim :: "string \<Rightarrow> string" where
  "trim s = rev (dropWhile isSpace (rev (dropWhile isSpace s)))"

text \<open>\<^verbatim>\<open>s.split(sep)\<close> for a separator of one character: the pieces between the separators,
  empty pieces included, so that the empty string splits into one empty piece.\<close>

fun split :: "char \<Rightarrow> string \<Rightarrow> string list" where
  "split sep [] = [[]]"
| "split sep (c # cs) =
     (if c = sep then [] # split sep cs
      else (case split sep cs of
              [] \<Rightarrow> [[c]]
            | w # ws \<Rightarrow> (c # w) # ws))"

text \<open>\<^verbatim>\<open>s.includes(sub)\<close>.\<close>

fun includesSub :: "string \<Rightarrow> string \<Rightarrow> bool" where
  "includesSub [] sub = (sub = [])"
| "includesSub (c # cs) sub = (prefix sub (c # cs) \<or> includesSub cs sub)"


subsection \<open>Values, types and tables\<close>

text \<open>
  The two tables are plain object literals, so \<^verbatim>\<open>table[name]\<close> also finds what
  \<^verbatim>\<open>Object.prototype\<close> provides. The source indexes them with lower-cased names only, and
  of the members of \<^verbatim>\<open>Object.prototype\<close> only \<^verbatim>\<open>constructor\<close> (the function \<^verbatim>\<open>Object\<close>)
  and \<^verbatim>\<open>__proto__\<close> (the object \<^verbatim>\<open>Object.prototype\<close> itself) have a name without a capital
  letter. A looked-up value is therefore a string or one of these two.
\<close>

datatype jsval = Str string | ObjectConstructor | ObjectPrototype

datatype error = TypeError

datatype Platform = Mac | Windows | Linux | Unknown

record Step =
  key :: "jsval option"
  ctrl :: bool
  meta :: bool
  shift :: bool
  alt :: bool

record ParsedPattern = Step +
  isSequence :: bool
  sequence :: "Step list"

record PlatformOption =
  platform :: "Platform option"

record MatchOptions = PlatformOption +
  caseSensitive :: "bool option"
  treatModAsPlatformMeta :: "bool option"


record KeyboardEvent =
  key :: string
  ctrlKey :: bool
  metaKey :: bool
  shiftKey :: bool
  altKey :: bool

definition specialKeyMap :: "(string \<times> string) list" where
  "specialKeyMap =
     [(''esc'', ''Escape''), (''escape'', ''Escape''), (''enter'', ''Enter''),
      (''return'', ''Enter''), (''tab'', ''Tab''), (''space'', '' ''), (''spacebar'', '' ''),
      (''backspace'', ''Backspace''), (''delete'', ''Delete''), (''del'', ''Delete''),
      (''arrowup'', ''ArrowUp''), (''up'', ''ArrowUp''), (''arrowdown'', ''ArrowDown''),
      (''down'', ''ArrowDown''), (''arrowleft'', ''ArrowLeft''), (''left'', ''ArrowLeft''),
      (''arrowright'', ''ArrowRight''), (''right'', ''ArrowRight''), (''pageup'', ''PageUp''),
      (''pagedown'', ''PageDown''), (''home'', ''Home''), (''end'', ''End'')]"

definition modifierAliases :: "(string \<times> string) list" where
  "modifierAliases =
     [(''control'', ''ctrl''), (''ctrl'', ''ctrl''), (''command'', ''meta''), (''cmd'', ''meta''),
      (''meta'', ''meta''), (''shift'', ''shift''), (''option'', ''alt''), (''alt'', ''alt''),
      (''mod'', ''mod'')]"

definition objectPrototype :: "(string \<times> jsval) list" where
  "objectPrototype = [(''constructor'', ObjectConstructor), (''__proto__'', ObjectPrototype)]"

text \<open>\<^verbatim>\<open>table[lower]\<close>, \<open>None\<close> for \<^verbatim>\<open>undefined\<close>.\<close>

definition lookup :: "(string \<times> string) list \<Rightarrow> string \<Rightarrow> jsval option" where
  "lookup table lower =
     (case map_of table lower of
        Some v \<Rightarrow> Some (Str v)
      | None \<Rightarrow> map_of objectPrototype lower)"

text \<open>\<^verbatim>\<open>v.length\<close>: \<^verbatim>\<open>Object.length\<close> is 1, \<^verbatim>\<open>Object.prototype.length\<close> is undefined.\<close>

fun lengthOf :: "jsval \<Rightarrow> nat option" where
  "lengthOf (Str s) = Some (length s)"
| "lengthOf ObjectConstructor = Some 1"
| "lengthOf ObjectPrototype = None"

text \<open>\<^verbatim>\<open>v.toLowerCase()\<close> and \<^verbatim>\<open>v.toUpperCase()\<close>: only a string has the method.\<close>

fun callToLowerCase :: "jsval \<Rightarrow> error + jsval" where
  "callToLowerCase (Str s) = Inr (Str (toLowerCase s))"
| "callToLowerCase ObjectConstructor = Inl TypeError"
| "callToLowerCase ObjectPrototype = Inl TypeError"



subsection \<open>detectPlatform\<close>

text \<open>\<^verbatim>\<open>detectPlatform\<close> in the two environments in which it returns: \<open>nav\<close> is \<open>None\<close>
  when \<^verbatim>\<open>navigator\<close> is undefined, and the string \<^verbatim>\<open>navigator.platform\<close> otherwise. The third
  environment, where reading the platform throws, is the case \<open>WithoutPlatform\<close> of
  \<open>detectPlatformEnv\<close> below.\<close>

definition detectPlatform :: "string option \<Rightarrow> Platform" where
  "detectPlatform nav =
     (case nav of
        None \<Rightarrow> Unknown
      | Some navigatorPlatform \<Rightarrow>
          (let p = toLowerCase navigatorPlatform in
           if includesSub p ''mac'' then Mac
           else if includesSub p ''win'' then Windows
           else if includesSub p ''linux'' then Linux
           else Unknown))"

subsection \<open>normalizeKeyName, parseSingle, parsePattern\<close>

definition normalizeKeyName :: "string \<Rightarrow> bool \<Rightarrow> jsval" where
  "normalizeKeyName raw cs =
     (let k = trim raw; lower = toLowerCase k in
      case lookup specialKeyMap lower of
        Some v \<Rightarrow> v
      | None \<Rightarrow>
          if length lower = 1 then (if cs then Str k else Str lower)
          else if cs then Str k
          else if length k = 1 then Str lower
          else Str (case k of [] \<Rightarrow> [] | c # rest \<Rightarrow> toUpperChar c # rest))"

text \<open>The body of the loop over the tokens of one step; \<open>st\<close> holds the five loop
  variables \<^verbatim>\<open>ctrl\<close>, \<^verbatim>\<open>meta\<close>, \<^verbatim>\<open>shift\<close>, \<^verbatim>\<open>alt\<close>, \<^verbatim>\<open>key\<close>.\<close>

definition parseToken :: "Platform \<Rightarrow> bool \<Rightarrow> bool \<Rightarrow> Step \<Rightarrow> string \<Rightarrow> Step" where
  "parseToken plat cs treatMod st token =
     (let lower = toLowerCase token; alias = lookup modifierAliases lower in
      if alias = Some (Str ''mod'') \<and> treatMod then
        (if plat = Mac then st\<lparr>meta := True\<rparr> else st\<lparr>ctrl := True\<rparr>)
      else if alias = Some (Str ''ctrl'') then st\<lparr>ctrl := True\<rparr>
      else if alias = Some (Str ''meta'') then st\<lparr>meta := True\<rparr>
      else if alias = Some (Str ''shift'') then st\<lparr>shift := True\<rparr>
      else if alias = Some (Str ''alt'') then st\<lparr>alt := True\<rparr>
      else st\<lparr>Step.key := Some (normalizeKeyName token cs)\<rparr>)"

definition emptyStep :: Step where
  "emptyStep = \<lparr>Step.key = None, ctrl = False, meta = False, shift = False, alt = False\<rparr>"

definition tokensOf :: "char \<Rightarrow> string \<Rightarrow> string list" where
  "tokensOf sep s = filter (\<lambda>t. t \<noteq> []) (map trim (split sep s))"

definition parseSingle :: "string option \<Rightarrow> string \<Rightarrow> MatchOptions \<Rightarrow> Step" where
  "parseSingle nav pattern options =
     (let plat = (case platform options of Some p \<Rightarrow> p | None \<Rightarrow> detectPlatform nav);
          cs = (case caseSensitive options of Some b \<Rightarrow> b | None \<Rightarrow> False);
          treatMod = (case treatModAsPlatformMeta options of Some b \<Rightarrow> b | None \<Rightarrow> True);
          tokens = tokensOf (CHR ''+'') pattern
      in foldl (parseToken plat cs treatMod) emptyStep tokens)"

definition parsePattern :: "string option \<Rightarrow> string \<Rightarrow> MatchOptions \<Rightarrow> ParsedPattern" where
  "parsePattern nav pattern options =
     (let sequenceParts = tokensOf (CHR '' '') pattern in
      if length sequenceParts \<le> 1 then
        (let single = parseSingle nav pattern options in
         \<lparr>Step.key = Step.key single, ctrl = ctrl single, meta = meta single,
          shift = shift single, alt = alt single,
          isSequence = False, sequence = [single]\<rparr>)
      else
        \<lparr>Step.key = None, ctrl = False, meta = False, shift = False, alt = False,
         isSequence = True,
         sequence = map (\<lambda>p. parseSingle nav p options) sequenceParts\<rparr>)"

subsection \<open>The parser with the environment as an input\<close>

text \<open>
  The global \<^verbatim>\<open>navigator\<close> as \<^verbatim>\<open>detectPlatform\<close> finds it: not defined; an object with a
  string \<^verbatim>\<open>platform\<close>; an object whose \<^verbatim>\<open>platform\<close> is not a string, on which
  \<^verbatim>\<open>navigator.platform.toLowerCase()\<close> throws. The functions above take \<open>nav\<close>, the string
  if there is one: they are the calls in which \<^verbatim>\<open>detectPlatform\<close> returns. Below,
  \<^verbatim>\<open>detectPlatform\<close>, \<^verbatim>\<open>parseSingle\<close> and \<^verbatim>\<open>parsePattern\<close> are written again, statement
  for statement, with the navigator itself as input and the \<^verbatim>\<open>TypeError\<close> as a result.
\<close>

datatype navigator = NoNavigator | WithPlatform string | WithoutPlatform

definition detectPlatformEnv :: "navigator \<Rightarrow> error + Platform" where
  "detectPlatformEnv n =
     (case n of
        NoNavigator \<Rightarrow> Inr Unknown
      | WithoutPlatform \<Rightarrow> Inl TypeError
      | WithPlatform navigatorPlatform \<Rightarrow>
          (let p = toLowerCase navigatorPlatform in
           if includesSub p ''mac'' then Inr Mac
           else if includesSub p ''win'' then Inr Windows
           else if includesSub p ''linux'' then Inr Linux
           else Inr Unknown))"

text \<open>\<^verbatim>\<open>options?.platform ?? detectPlatform()\<close> is the first statement of \<^verbatim>\<open>parseSingle\<close>:
  \<^verbatim>\<open>detectPlatform\<close> is called only when the options name no platform.\<close>

definition parseSingleEnv :: "navigator \<Rightarrow> string \<Rightarrow> MatchOptions \<Rightarrow> error + Step" where
  "parseSingleEnv n pattern options =
     (case (case platform options of Some p \<Rightarrow> Inr p | None \<Rightarrow> detectPlatformEnv n) of
        Inl e \<Rightarrow> Inl e
      | Inr plat \<Rightarrow>
          (let cs = (case caseSensitive options of Some b \<Rightarrow> b | None \<Rightarrow> False);
               treatMod = (case treatModAsPlatformMeta options of Some b \<Rightarrow> b | None \<Rightarrow> True);
               tokens = tokensOf (CHR ''+'') pattern
           in Inr (foldl (parseToken plat cs treatMod) emptyStep tokens)))"

text \<open>\<^verbatim>\<open>sequenceParts.map((p) => parseSingle(p, options))\<close>: the first call that throws
  ends the map.\<close>

fun parseStepsEnv :: "navigator \<Rightarrow> string list \<Rightarrow> MatchOptions \<Rightarrow> error + Step list" where
  "parseStepsEnv n [] options = Inr []"
| "parseStepsEnv n (p # ps) options =
     (case parseSingleEnv n p options of
        Inl e \<Rightarrow> Inl e
      | Inr step \<Rightarrow>
          (case parseStepsEnv n ps options of
             Inl e \<Rightarrow> Inl e
           | Inr steps \<Rightarrow> Inr (step # steps)))"

definition parsePatternEnv :: "navigator \<Rightarrow> string \<Rightarrow> MatchOptions \<Rightarrow> error + ParsedPattern" where
  "parsePatternEnv n pattern options =
     (let sequenceParts = tokensOf (CHR '' '') pattern in
      if length sequenceParts \<le> 1 then
        (case parseSingleEnv n pattern options of
           Inl e \<Rightarrow> Inl e
         | Inr single \<Rightarrow>
             Inr \<lparr>Step.key = Step.key single, ctrl = ctrl single, meta = meta single,
                  shift = shift single, alt = alt single,
                  isSequence = False, sequence = [single]\<rparr>)
      else
        (case parseStepsEnv n sequenceParts options of
           Inl e \<Rightarrow> Inl e
         | Inr steps \<Rightarrow>
             Inr \<lparr>Step.key = None, ctrl = False, meta = False, shift = False, alt = False,
                  isSequence = True, sequence = steps\<rparr>))"

text \<open>What \<open>nav\<close> is in an environment where \<^verbatim>\<open>navigator.platform\<close> can be read.\<close>

definition stringPlatform :: "navigator \<Rightarrow> string option" where
  "stringPlatform n =
     (case n of NoNavigator \<Rightarrow> None | WithPlatform s \<Rightarrow> Some s | WithoutPlatform \<Rightarrow> None)"

subsection \<open>eventKeyComparable, matchHotkey, matchAnyHotkey\<close>

definition eventKeyComparable :: "KeyboardEvent \<Rightarrow> bool \<Rightarrow> string" where
  "eventKeyComparable event cs =
     (let k = KeyboardEvent.key event in
      if length k = 1 then (if cs then k else toLowerCase k) else k)"

text \<open>The expression
  \<^verbatim>\<open>key.length === 1 ? (caseSensitive ? key : key.toLowerCase()) : key\<close>,
  which \<^verbatim>\<open>matchHotkey\<close> and the sequence handler both compare the event's key with. On the
  function \<^verbatim>\<open>Object\<close>, whose length is 1, the call of \<^verbatim>\<open>toLowerCase\<close> throws.\<close>

definition expectedKey :: "jsval \<Rightarrow> bool \<Rightarrow> error + jsval" where
  "expectedKey k cs =
     (if lengthOf k = Some 1 then (if cs then Inr k else callToLowerCase k) else Inr k)"

text \<open>\<^verbatim>\<open>key === null || eventKeyComparable(event, cs) === (expected key)\<close>.\<close>

definition keyMatch :: "jsval option \<Rightarrow> KeyboardEvent \<Rightarrow> bool \<Rightarrow> error + bool" where
  "keyMatch k event cs =
     (case k of
        None \<Rightarrow> Inr True
      | Some v \<Rightarrow>
          (case expectedKey v cs of
             Inl e \<Rightarrow> Inl e
           | Inr expected \<Rightarrow> Inr (Str (eventKeyComparable event cs) = expected)))"

definition matchHotkey ::
  "string option \<Rightarrow> KeyboardEvent \<Rightarrow> string \<Rightarrow> MatchOptions \<Rightarrow> error + bool" where
  "matchHotkey nav event pattern options =
     (let parsed = parsePattern nav pattern options in
      if isSequence parsed then Inr False
      else
        (let cs = (case caseSensitive options of Some b \<Rightarrow> b | None \<Rightarrow> False) in
         if ctrl parsed \<noteq> ctrlKey event then Inr False
         else if meta parsed \<noteq> metaKey event then Inr False
         else if shift parsed \<noteq> shiftKey event then Inr False
         else if alt parsed \<noteq> altKey event then Inr False
         else keyMatch (Step.key parsed) event cs))"

text \<open>The loop of \<^verbatim>\<open>matchAnyHotkey\<close> over the list of patterns (a single string is the list
  of that one string).\<close>

fun matchAnyHotkey ::
  "string option \<Rightarrow> KeyboardEvent \<Rightarrow> string list \<Rightarrow> MatchOptions \<Rightarrow> error + bool" where
  "matchAnyHotkey nav event [] options = Inr False"
| "matchAnyHotkey nav event (p # ps) options =
     (case matchHotkey nav event p options of
        Inl e \<Rightarrow> Inl e
      | Inr matched \<Rightarrow> if matched then Inr True else matchAnyHotkey nav event ps options)"

subsection \<open>Timers of the window\<close>

text \<open>
  The state a sequence handler works on: its two closure variables \<^verbatim>\<open>index\<close> and
  \<^verbatim>\<open>timer\<close>, and the window's table of pending timeouts, each with its handle and the
  milliseconds left before it fires. Every timeout of the table was set by the handler, so
  every one runs the same callback. Handles are positive, as \<^verbatim>\<open>setTimeout\<close> promises.
\<close>

record recognizer =
  index :: nat
  timer :: "nat option"
  timers :: "(nat \<times> nat) list"
  nextTimerId :: nat

definition initial :: recognizer where
  "initial = \<lparr>index = 0, timer = None, timers = [], nextTimerId = 1\<rparr>"

text \<open>The delay a timeout is set with. \<^verbatim>\<open>window.setTimeout\<close> takes its delay as a signed
  32-bit integer: the number wraps around modulo \<^verbatim>\<open>2^32\<close> into the range from \<^verbatim>\<open>-2^31\<close> to
  \<^verbatim>\<open>2^31 - 1\<close>, and a negative delay counts as zero. So a delay of \<^verbatim>\<open>2^31\<close> milliseconds or
  more is not kept as it is: \<^verbatim>\<open>2^31\<close> itself becomes zero.\<close>

definition timerDelay :: "int \<Rightarrow> nat" where
  "timerDelay ms =
     (let x = ms mod 4294967296;
          signed = (if 2147483648 \<le> x then x - 4294967296 else x)
      in if signed < 0 then 0 else nat signed)"

text \<open>\<^verbatim>\<open>window.setTimeout(callback, ms)\<close>.\<close>

definition setTimeout :: "int \<Rightarrow> recognizer \<Rightarrow> nat \<times> recognizer" where
  "setTimeout ms w =
     (nextTimerId w,
      w\<lparr>timers := timers w @ [(nextTimerId w, timerDelay ms)],
        nextTimerId := nextTimerId w + 1\<rparr>)"

definition clearTimeout :: "nat \<Rightarrow> recognizer \<Rightarrow> recognizer" where
  "clearTimeout t w = w\<lparr>timers := filter (\<lambda>(t', r). t' \<noteq> t) (timers w)\<rparr>"

text \<open>The callback of the timeout: \<^verbatim>\<open>() => { index = 0; timer = null; }\<close>.\<close>

definition timeoutCallback :: "recognizer \<Rightarrow> recognizer" where
  "timeoutCallback w = w\<lparr>index := 0, timer := None\<rparr>"

text \<open>\<open>d\<close> milliseconds pass with the event loop idle: every timeout with at most \<open>d\<close>
  milliseconds left fires, the others come \<open>d\<close> milliseconds closer. No time at all is no
  idle time: nothing fires, and the next event is dispatched back to back.\<close>

definition elapse :: "nat \<Rightarrow> recognizer \<Rightarrow> recognizer" where
  "elapse d w =
     (if d = 0 then w
      else
        (let due = filter (\<lambda>(t, r). r \<le> d) (timers w);
             waiting = map (\<lambda>(t, r). (t, r - d)) (filter (\<lambda>(t, r). \<not> r \<le> d) (timers w))
         in foldl (\<lambda>s fired. timeoutCallback s) (w\<lparr>timers := waiting\<rparr>) due))"

subsection \<open>createHotkeyHandler\<close>

datatype signal = Invoked KeyboardEvent | Quiet | Raised error

text \<open>\<^verbatim>\<open>if (timer) { window.clearTimeout(timer); timer = null; }\<close>\<close>

definition cancelPending :: "recognizer \<Rightarrow> recognizer" where
  "cancelPending w =
     (case timer w of
        None \<Rightarrow> w
      | Some t \<Rightarrow> if t \<noteq> 0 then (clearTimeout t w)\<lparr>timer := None\<rparr> else w)"

text \<open>\<^verbatim>\<open>modMatch && keyMatch\<close> of the sequence handler; both operands are computed before
  the test, so a key comparison that throws does so whatever the modifiers are. The handler
  reads \<^verbatim>\<open>options?.caseSensitive\<close> twice, once with \<^verbatim>\<open>?? false\<close> and once for its
  truthiness; both readings are \<open>cs\<close>.\<close>

definition stepMatches :: "Step \<Rightarrow> KeyboardEvent \<Rightarrow> bool \<Rightarrow> error + bool" where
  "stepMatches current event cs =
     (let modMatch = (ctrl current = ctrlKey event \<and> meta current = metaKey event \<and>
                      shift current = shiftKey event \<and> alt current = altKey event)
      in case keyMatch (Step.key current) event cs of
           Inl e \<Rightarrow> Inl e
         | Inr keyMatched \<Rightarrow> Inr (modMatch \<and> keyMatched))"

text \<open>The handler returned for a sequence. The result says whether the callback
  \<^verbatim>\<open>handler\<close> was invoked, and with which event. Reading \<^verbatim>\<open>seq[index]\<close> beyond the
  sequence gives \<^verbatim>\<open>undefined\<close>, whose field \<^verbatim>\<open>ctrl\<close> cannot be read. Before it sets a
  new timeout the handler clears the pending one (\<open>w2\<close>) without resetting \<^verbatim>\<open>timer\<close>,
  which the new handle overwrites.\<close>

definition sequenceHandler ::
  "Step list \<Rightarrow> int \<Rightarrow> MatchOptions \<Rightarrow> KeyboardEvent \<Rightarrow> recognizer
     \<Rightarrow> signal \<times> recognizer" where
  "sequenceHandler seq sequenceTimeoutMs options event w =
     (if length seq \<le> index w then (Raised TypeError, w)
      else
        (let current = seq ! index w;
             cs = (case caseSensitive options of Some b \<Rightarrow> b | None \<Rightarrow> False)
         in case stepMatches current event cs of
              Inl e \<Rightarrow> (Raised e, w)
            | Inr matched \<Rightarrow>
                if matched then
                  (let w1 = w\<lparr>index := index w + 1\<rparr> in
                   if index w1 = length seq then
                     (Invoked event, cancelPending (w1\<lparr>index := 0\<rparr>))
                   else
                     (let w2 = (case timer w1 of
                                  None \<Rightarrow> w1
                                | Some t \<Rightarrow> if t \<noteq> 0 then clearTimeout t w1 else w1);
                          (t', w3) = setTimeout sequenceTimeoutMs w2
                      in (Quiet, w3\<lparr>timer := Some t'\<rparr>)))
                else (Quiet, cancelPending (w\<lparr>index := 0\<rparr>))))"

text \<open>The handler returned when no pattern is a sequence.\<close>

definition simpleHandler ::
  "string option \<Rightarrow> string list \<Rightarrow> MatchOptions \<Rightarrow> Platform \<Rightarrow> KeyboardEvent \<Rightarrow> signal" where
  "simpleHandler nav normalized options plat event =
     (case matchAnyHotkey nav event normalized (options\<lparr>platform := Some plat\<rparr>) of
        Inl e \<Rightarrow> Raised e
      | Inr matched \<Rightarrow> if matched then Invoked event else Quiet)"

datatype Patterns = Single string | Multiple "string list"

datatype HotkeyPattern = Plain Patterns | Config Patterns "int option"

text \<open>What \<^verbatim>\<open>createHotkeyHandler\<close> returns: one of its two closures, with the values the
  closure has captured.\<close>

datatype Handler = SequenceHandler "Step list" int | SimpleHandler "string list" Platform

definition createHotkeyHandler ::
  "string option \<Rightarrow> HotkeyPattern \<Rightarrow> MatchOptions \<Rightarrow> error + Handler" where
  "createHotkeyHandler nav patterns options =
     (let plat = (case platform options of Some p \<Rightarrow> p | None \<Rightarrow> detectPlatform nav);
          sequenceTimeoutMs =
            (case patterns of
               Plain l \<Rightarrow> 0
             | Config l ms \<Rightarrow> (case ms of Some n \<Rightarrow> n | None \<Rightarrow> 600));
          list = (case patterns of Plain l \<Rightarrow> l | Config l ms \<Rightarrow> l);
          normalized = (case list of Single p \<Rightarrow> [p] | Multiple ps \<Rightarrow> ps)
      in if list_ex (\<lambda>p. isSequence (parsePattern nav p options)) normalized then
           (case find (\<lambda>p. isSequence (parsePattern nav p options)) normalized of
              None \<Rightarrow> Inl TypeError
            | Some firstSeq \<Rightarrow>
                Inr (SequenceHandler (sequence (parsePattern nav firstSeq options))
                       sequenceTimeoutMs))
         else Inr (SimpleHandler normalized plat))"

text \<open>Calling the returned handler with one event.\<close>

fun call ::
  "string option \<Rightarrow> MatchOptions \<Rightarrow> Handler \<Rightarrow> KeyboardEvent \<Rightarrow> recognizer
     \<Rightarrow> signal \<times> recognizer" where
  "call nav options (SequenceHandler seq ms) event w = sequenceHandler seq ms options event w"
| "call nav options (SimpleHandler normalized plat) event w =
     (simpleHandler nav normalized options plat event, w)"

text \<open>What reaches a registration, in order: key events, and stretches of idle time.\<close>

datatype input = KeyDown KeyboardEvent | Elapse nat

fun run ::
  "string option \<Rightarrow> MatchOptions \<Rightarrow> Handler \<Rightarrow> input list \<Rightarrow> recognizer
     \<Rightarrow> signal list \<times> recognizer" where
  "run nav options h [] w = ([], w)"
| "run nav options h (KeyDown event # rest) w =
     (let (s, w1) = call nav options h event w;
          (ss, w2) = run nav options h rest w1
      in (s # ss, w2))"
| "run nav options h (Elapse d # rest) w = run nav options h rest (elapse d w)"

text \<open>The events the callback was invoked with.\<close>

fun invocations :: "signal list \<Rightarrow> KeyboardEvent list" where
  "invocations [] = []"
| "invocations (Invoked event # ss) = event # invocations ss"
| "invocations (Quiet # ss) = invocations ss"
| "invocations (Raised e # ss) = invocations ss"

subsection \<open>formatPattern\<close>











subsection \<open>Reachable states, and the values the examples use\<close>

text \<open>The states a sequence handler can be in: it starts with no progress and no timeout,
  in a window whose next timer handle is positive; then key events and idle time follow in
  any order.\<close>

inductive reachable :: "Step list \<Rightarrow> int \<Rightarrow> MatchOptions \<Rightarrow> recognizer \<Rightarrow> bool"
  for seq :: "Step list" and ms :: int and options :: MatchOptions where
  start: "0 < n \<Longrightarrow> reachable seq ms options \<lparr>index = 0, timer = None, timers = [], nextTimerId = n\<rparr>"
| keyDown: "reachable seq ms options w \<Longrightarrow>
     reachable seq ms options (snd (sequenceHandler seq ms options event w))"
| idle: "reachable seq ms options w \<Longrightarrow> reachable seq ms options (elapse d w)"

text \<open>What holds in every reachable state: the index is inside the sequence, and the
  pending timeouts of the window are exactly the one the variable \<^verbatim>\<open>timer\<close> holds, if any.\<close>

definition wellFormed :: "Step list \<Rightarrow> recognizer \<Rightarrow> bool" where
  "wellFormed seq w = (index w < length seq \<and> 0 < nextTimerId w \<and>
     (case timer w of None \<Rightarrow> timers w = []
      | Some t \<Rightarrow> t \<noteq> 0 \<and> t < nextTimerId w \<and> map fst (timers w) = [t]))"


definition noOptions :: MatchOptions where
  "noOptions = \<lparr>platform = None, caseSensitive = None, treatModAsPlatformMeta = None\<rparr>"


text \<open>A key event with no modifier held.\<close>

definition press :: "string \<Rightarrow> KeyboardEvent" where
  "press k = \<lparr>KeyboardEvent.key = k, ctrlKey = False, metaKey = False, shiftKey = False,
              altKey = False\<rparr>"

definition keyStep :: "string \<Rightarrow> Step" where
  "keyStep k = \<lparr>Step.key = Some (Str k), ctrl = False, meta = False, shift = False,
                alt = False\<rparr>"

section \<open>Properties\<close>

subsection \<open>Patterns the examples parse\<close>

lemmas parse_defs = parsePattern_def parseSingle_def tokensOf_def trim_def isSpace_def
  parseToken_def emptyStep_def toLowerCase_def toLowerChar_def isUpper_def
  toUpperChar_def isLower_def lookup_def
  modifierAliases_def specialKeyMap_def objectPrototype_def normalizeKeyName_def Let_def

lemma parse_Control_k:
  "parsePattern nav ''Control+k'' options =
     \<lparr>Step.key = Some (Str ''k''), ctrl = True, meta = False, shift = False, alt = False,
      isSequence = False,
      sequence = [\<lparr>Step.key = Some (Str ''k''), ctrl = True, meta = False, shift = False,
                   alt = False\<rparr>]\<rparr>"
  by (simp add: parse_defs split: option.splits)

lemma parse_Control:
  "parsePattern nav ''Control'' options =
     \<lparr>Step.key = None, ctrl = True, meta = False, shift = False, alt = False,
      isSequence = False,
      sequence = [\<lparr>Step.key = None, ctrl = True, meta = False, shift = False,
                   alt = False\<rparr>]\<rparr>"
  by (simp add: parse_defs split: option.splits)

lemma parse_g_g:
  "parsePattern nav ''g g'' options =
     \<lparr>Step.key = None, ctrl = False, meta = False, shift = False, alt = False,
      isSequence = True, sequence = [keyStep ''g'', keyStep ''g'']\<rparr>"
  by (simp add: parse_defs keyStep_def split: option.splits)

lemma parse_g_h:
  "parsePattern nav ''g h'' options =
     \<lparr>Step.key = None, ctrl = False, meta = False, shift = False, alt = False,
      isSequence = True, sequence = [keyStep ''g'', keyStep ''h'']\<rparr>"
  by (simp add: parse_defs keyStep_def split: option.splits)

lemma parse_k:
  "parsePattern nav ''k'' options =
     \<lparr>Step.key = Some (Str ''k''), ctrl = False, meta = False, shift = False, alt = False,
      isSequence = False, sequence = [keyStep ''k'']\<rparr>"
  by (simp add: parse_defs keyStep_def split: option.splits)

subsection \<open>The shape of a parsed pattern\<close>

text \<open>
  Claim C6. Whatever the input string and the options, the parsed pattern is of one of two
  shapes. When \<open>isSequence\<close> is false, \<open>sequence\<close> has exactly one element, and its key and
  its four modifier flags are those of the top level. When \<open>isSequence\<close> is true, the
  top-level key is null, the four top-level flags are false, and \<open>sequence\<close> has at least
  two elements.
\<close>

theorem parsePattern_shape:
  "(\<not> isSequence (parsePattern nav p options) \<longrightarrow>
      sequence (parsePattern nav p options) =
        [\<lparr>Step.key = Step.key (parsePattern nav p options),
          ctrl = ctrl (parsePattern nav p options),
          meta = meta (parsePattern nav p options),
          shift = shift (parsePattern nav p options),
          alt = alt (parsePattern nav p options)\<rparr>]) \<and>
   (isSequence (parsePattern nav p options) \<longrightarrow>
      Step.key (parsePattern nav p options) = None \<and>
      \<not> ctrl (parsePattern nav p options) \<and>
      \<not> meta (parsePattern nav p options) \<and>
      \<not> shift (parsePattern nav p options) \<and>
      \<not> alt (parsePattern nav p options) \<and>
      2 \<le> length (sequence (parsePattern nav p options)))"
  by (simp add: parsePattern_def Let_def)

theorem parsePattern_shape_witness:
  "\<not> isSequence (parsePattern None ''Control+k'' noOptions) \<and>
   sequence (parsePattern None ''Control+k'' noOptions) =
     [\<lparr>Step.key = Some (Str ''k''), ctrl = True, meta = False, shift = False, alt = False\<rparr>] \<and>
   isSequence (parsePattern None ''g g'' noOptions) \<and>
   Step.key (parsePattern None ''g g'' noOptions) = None \<and>
   2 \<le> length (sequence (parsePattern None ''g g'' noOptions))"
  using parsePattern_shape [of None "''Control+k''" noOptions]
    parsePattern_shape [of None "''g g''" noOptions]
  by (simp add: parse_Control_k parse_g_g)

subsection \<open>Matching one event\<close>

lemmas match_defs = matchHotkey_def keyMatch_def expectedKey_def eventKeyComparable_def
  toLowerCase_def toLowerChar_def isUpper_def

text \<open>
  Claim C2. \<open>matchHotkey\<close> returns true only if the four modifier flags of the event equal
  the four modifier booleans of the parsed pattern, one by one; for a pattern that is not a
  sequence, an event whose flags differ in any place (an extra modifier held, for one) is
  answered false; and when the key of the pattern is null, equal modifiers are enough,
  whatever key the event carries. The event \<open>k\<close> with Control and Shift held does not match
  \<open>Control+k\<close>.
\<close>

theorem matchHotkey_exact_modifiers:
  "(matchHotkey nav event pattern options = Inr True \<longrightarrow>
      ctrlKey event = ctrl (parsePattern nav pattern options) \<and>
      metaKey event = meta (parsePattern nav pattern options) \<and>
      shiftKey event = shift (parsePattern nav pattern options) \<and>
      altKey event = alt (parsePattern nav pattern options)) \<and>
   (\<not> isSequence (parsePattern nav pattern options) \<and>
    (ctrlKey event \<noteq> ctrl (parsePattern nav pattern options) \<or>
     metaKey event \<noteq> meta (parsePattern nav pattern options) \<or>
     shiftKey event \<noteq> shift (parsePattern nav pattern options) \<or>
     altKey event \<noteq> alt (parsePattern nav pattern options)) \<longrightarrow>
      matchHotkey nav event pattern options = Inr False) \<and>
   (\<not> isSequence (parsePattern nav pattern options) \<and>
    Step.key (parsePattern nav pattern options) = None \<and>
    ctrlKey event = ctrl (parsePattern nav pattern options) \<and>
    metaKey event = meta (parsePattern nav pattern options) \<and>
    shiftKey event = shift (parsePattern nav pattern options) \<and>
    altKey event = alt (parsePattern nav pattern options) \<longrightarrow>
      matchHotkey nav event pattern options = Inr True) \<and>
   matchHotkey nav
     \<lparr>KeyboardEvent.key = ''k'', ctrlKey = True, metaKey = False, shiftKey = True,
      altKey = False\<rparr>
     ''Control+k'' options = Inr False"
proof -
  have ex: "matchHotkey nav
     \<lparr>KeyboardEvent.key = ''k'', ctrlKey = True, metaKey = False, shiftKey = True,
      altKey = False\<rparr>
     ''Control+k'' options = Inr False"
    by (simp add: matchHotkey_def parse_Control_k)
  have gen: "matchHotkey nav event pattern options = Inr True \<longrightarrow>
      ctrlKey event = ctrl (parsePattern nav pattern options) \<and>
      metaKey event = meta (parsePattern nav pattern options) \<and>
      shiftKey event = shift (parsePattern nav pattern options) \<and>
      altKey event = alt (parsePattern nav pattern options)"
    by (auto simp: matchHotkey_def Let_def split: if_splits)
  have extra: "\<not> isSequence (parsePattern nav pattern options) \<and>
    (ctrlKey event \<noteq> ctrl (parsePattern nav pattern options) \<or>
     metaKey event \<noteq> meta (parsePattern nav pattern options) \<or>
     shiftKey event \<noteq> shift (parsePattern nav pattern options) \<or>
     altKey event \<noteq> alt (parsePattern nav pattern options)) \<longrightarrow>
      matchHotkey nav event pattern options = Inr False"
    by (auto simp: matchHotkey_def Let_def)
  have nokey: "\<not> isSequence (parsePattern nav pattern options) \<and>
    Step.key (parsePattern nav pattern options) = None \<and>
    ctrlKey event = ctrl (parsePattern nav pattern options) \<and>
    metaKey event = meta (parsePattern nav pattern options) \<and>
    shiftKey event = shift (parsePattern nav pattern options) \<and>
    altKey event = alt (parsePattern nav pattern options) \<longrightarrow>
      matchHotkey nav event pattern options = Inr True"
    by (simp add: matchHotkey_def Let_def keyMatch_def)
  from gen extra nokey ex show ?thesis by blast
qed

theorem matchHotkey_exact_modifiers_witness:
  "matchHotkey None
     \<lparr>KeyboardEvent.key = ''k'', ctrlKey = True, metaKey = False, shiftKey = False,
      altKey = False\<rparr> ''Control+k'' noOptions = Inr True \<and>
   ctrl (parsePattern None ''Control+k'' noOptions) \<and>
   \<not> shift (parsePattern None ''Control+k'' noOptions) \<and>
   matchHotkey None
     \<lparr>KeyboardEvent.key = ''k'', ctrlKey = True, metaKey = False, shiftKey = True,
      altKey = False\<rparr> ''Control+k'' noOptions = Inr False \<and>
   Step.key (parsePattern None ''Control'' noOptions) = None \<and>
   matchHotkey None
     \<lparr>KeyboardEvent.key = ''x'', ctrlKey = True, metaKey = False, shiftKey = False,
      altKey = False\<rparr> ''Control'' noOptions = Inr True"
  using
    matchHotkey_exact_modifiers [of None
      "\<lparr>KeyboardEvent.key = ''k'', ctrlKey = True, metaKey = False, shiftKey = False,
        altKey = False\<rparr>" "''Control+k''" noOptions]
    matchHotkey_exact_modifiers [of None
      "\<lparr>KeyboardEvent.key = ''k'', ctrlKey = True, metaKey = False, shiftKey = True,
        altKey = False\<rparr>" "''Control+k''" noOptions]
    matchHotkey_exact_modifiers [of None
      "\<lparr>KeyboardEvent.key = ''x'', ctrlKey = True, metaKey = False, shiftKey = False,
        altKey = False\<rparr>" "''Control''" noOptions]
  by (simp add: parse_Control_k parse_Control match_defs noOptions_def)

text \<open>
  Claim C8. For every event, every options value and every pattern that parses as a
  sequence, \<open>matchHotkey\<close> returns false. For a pattern that is not a sequence it is the
  comparison of the event with the single step of the pattern: the four modifiers first,
  then the key.
\<close>

theorem matchHotkey_sequence_false:
  "(isSequence (parsePattern nav pattern options) \<longrightarrow>
      matchHotkey nav event pattern options = Inr False) \<and>
   (\<not> isSequence (parsePattern nav pattern options) \<longrightarrow>
      (\<exists>step. sequence (parsePattern nav pattern options) = [step] \<and>
         matchHotkey nav event pattern options =
           (if ctrl step = ctrlKey event \<and> meta step = metaKey event \<and>
               shift step = shiftKey event \<and> alt step = altKey event
            then keyMatch (Step.key step) event
                   (case caseSensitive options of Some b \<Rightarrow> b | None \<Rightarrow> False)
            else Inr False)))"
  by (auto simp: matchHotkey_def parsePattern_def Let_def)

theorem matchHotkey_sequence_false_witness:
  "isSequence (parsePattern None ''g g'' noOptions) \<and>
   matchHotkey None (press ''g'') ''g g'' noOptions = Inr False \<and>
   \<not> isSequence (parsePattern None ''k'' noOptions) \<and>
   matchHotkey None (press ''k'') ''k'' noOptions = Inr True"
  using matchHotkey_sequence_false [of None "''g g''" noOptions "press ''g''"]
    matchHotkey_sequence_false [of None "''k''" noOptions "press ''k''"]
  by (simp add: parse_g_g parse_k match_defs noOptions_def press_def keyStep_def)

subsection \<open>Parsing where \<^verbatim>\<open>navigator\<close> has no platform\<close>

lemma detectPlatformEnv_returns:
  "n \<noteq> WithoutPlatform \<Longrightarrow> detectPlatformEnv n = Inr (detectPlatform (stringPlatform n))"
  by (cases n) (simp_all add: detectPlatformEnv_def detectPlatform_def stringPlatform_def Let_def)

lemma parseSingleEnv_returns:
  "platform options \<noteq> None \<or> n \<noteq> WithoutPlatform \<Longrightarrow>
   parseSingleEnv n p options = Inr (parseSingle (stringPlatform n) p options)"
  by (cases "platform options")
     (auto simp: parseSingleEnv_def parseSingle_def detectPlatformEnv_returns)

lemma parseStepsEnv_returns:
  "platform options \<noteq> None \<or> n \<noteq> WithoutPlatform \<Longrightarrow>
   parseStepsEnv n ps options = Inr (map (\<lambda>p. parseSingle (stringPlatform n) p options) ps)"
  by (induction ps) (simp_all add: parseSingleEnv_returns)

lemma parsePatternEnv_returns:
  "platform options \<noteq> None \<or> n \<noteq> WithoutPlatform \<Longrightarrow>
   parsePatternEnv n p options = Inr (parsePattern (stringPlatform n) p options)"
  by (simp add: parsePatternEnv_def parsePattern_def parseSingleEnv_returns
      parseStepsEnv_returns Let_def)

lemma parseSingleEnv_throws:
  "platform options = None \<Longrightarrow> parseSingleEnv WithoutPlatform p options = Inl TypeError"
  by (simp add: parseSingleEnv_def detectPlatformEnv_def)

lemma parsePatternEnv_throws:
  "platform options = None \<Longrightarrow> parsePatternEnv WithoutPlatform p options = Inl TypeError"
proof -
  assume a: "platform options = None"
  have "parseStepsEnv WithoutPlatform ps options = Inl TypeError" if "ps \<noteq> []" for ps
    using that a by (cases ps) (simp_all add: parseSingleEnv_throws)
  moreover have "tokensOf (CHR '' '') p \<noteq> []" if "\<not> length (tokensOf (CHR '' '') p) \<le> 1"
    using that by auto
  ultimately show ?thesis
    using a by (simp add: parsePatternEnv_def parseSingleEnv_throws Let_def)
qed

text \<open>
  Claim C7 says that \<open>parsePattern\<close> never fails: for every string it returns a parsed
  pattern, and the empty pattern gives one step with a null key and no modifier. The first
  statement of \<^verbatim>\<open>parseSingle\<close> calls \<^verbatim>\<open>detectPlatform\<close> when the options name no platform, and
  \<^verbatim>\<open>detectPlatform\<close> guards against a missing \<^verbatim>\<open>navigator\<close> but not against a
  \<^verbatim>\<open>navigator\<close> without a string \<^verbatim>\<open>platform\<close>. In such an environment the patterns \<open>k\<close> and
  the empty pattern raise a \<^verbatim>\<open>TypeError\<close>; where \<^verbatim>\<open>navigator\<close> is not defined at all, \<open>k\<close>
  parses.
\<close>

theorem parse_throws_without_platform:
  "parsePatternEnv WithoutPlatform ''k'' noOptions = Inl TypeError \<and>
   parsePatternEnv WithoutPlatform [] noOptions = Inl TypeError \<and>
   parsePatternEnv NoNavigator ''k'' noOptions =
     Inr \<lparr>Step.key = Some (Str ''k''), ctrl = False, meta = False, shift = False,
          alt = False, isSequence = False, sequence = [keyStep ''k'']\<rparr>"
proof -
  have none: "platform noOptions = None" by (simp add: noOptions_def)
  have "parsePatternEnv NoNavigator ''k'' noOptions =
      Inr (parsePattern (stringPlatform NoNavigator) ''k'' noOptions)"
    by (rule parsePatternEnv_returns) simp
  with parsePatternEnv_throws [OF none] show ?thesis by (simp add: parse_k)
qed

subsection \<open>The token \<open>mod\<close>\<close>

lemma parse_mod_off:
  "parsePattern nav ''mod'' (options\<lparr>treatModAsPlatformMeta := Some False\<rparr>) =
     \<lparr>Step.key = Some (Str (if caseSensitive options = Some True then ''mod'' else ''Mod'')),
      ctrl = False, meta = False, shift = False, alt = False, isSequence = False,
      sequence =
        [\<lparr>Step.key = Some (Str (if caseSensitive options = Some True then ''mod'' else ''Mod'')),
          ctrl = False, meta = False, shift = False, alt = False\<rparr>]\<rparr>"
  by (simp add: parse_defs split: option.splits)

lemma parse_mod_on:
  "treatModAsPlatformMeta options \<noteq> Some False \<Longrightarrow>
   parsePattern nav ''mod'' options =
     (if (case platform options of Some p \<Rightarrow> p | None \<Rightarrow> detectPlatform nav) = Mac
      then \<lparr>Step.key = None, ctrl = False, meta = True, shift = False, alt = False,
            isSequence = False,
            sequence = [\<lparr>Step.key = None, ctrl = False, meta = True, shift = False,
                         alt = False\<rparr>]\<rparr>
      else \<lparr>Step.key = None, ctrl = True, meta = False, shift = False, alt = False,
            isSequence = False,
            sequence = [\<lparr>Step.key = None, ctrl = True, meta = False, shift = False,
                         alt = False\<rparr>]\<rparr>)"
  by (auto simp: parsePattern_def parseSingle_def tokensOf_def trim_def isSpace_def
      parseToken_def emptyStep_def toLowerCase_def toLowerChar_def isUpper_def lookup_def
      modifierAliases_def Let_def split: option.splits)

lemma parseToken_mod:
  "toLowerCase token = ''mod'' \<Longrightarrow>
   parseToken plat cs treatMod st token =
     (if treatMod then (if plat = Mac then st\<lparr>meta := True\<rparr> else st\<lparr>ctrl := True\<rparr>)
      else st\<lparr>Step.key := Some (normalizeKeyName token cs)\<rparr>)"
  by (simp add: parseToken_def lookup_def modifierAliases_def Let_def)

lemma detect_mac: "detectPlatform (Some ''MacIntel'') = Mac"
  by (simp add: detectPlatform_def toLowerCase_def toLowerChar_def isUpper_def)

text \<open>
  Claim C4 says that with \<open>treatModAsPlatformMeta\<close> false the token \<open>mod\<close> is ignored, so
  that the pattern \<open>mod\<close> parses to a null key. The loop has no branch that drops a token:
  a token that sets no modifier is the key. With the flag false the pattern \<open>mod\<close> parses to
  the key \<open>Mod\<close>.
\<close>

theorem mod_token_ignored_counterexample:
  "Step.key (parsePattern None ''mod''
     \<lparr>platform = None, caseSensitive = None, treatModAsPlatformMeta = Some False\<rparr>) =
   Some (Str ''Mod'')"
  using parse_mod_off [of None noOptions] by (simp add: noOptions_def)

text \<open>
  Claim C4, amended. With \<open>treatModAsPlatformMeta\<close> false, the token \<open>mod\<close> (in any
  letter case) sets none of the four modifier booleans and is read as a key token: it
  becomes the key of the step, normalised as any other key name, so that the pattern
  \<open>mod\<close> parses to the key \<open>Mod\<close> (\<open>mod\<close> when case-sensitive) with the four modifiers
  false. With the flag true, which is the default, the token sets \<open>meta\<close> on the mac
  platform and \<open>ctrl\<close> on every other platform, and leaves the key alone.
\<close>

theorem mod_token_as_key:
  "(toLowerCase token = ''mod'' \<longrightarrow>
      parseToken plat cs False st token = st\<lparr>Step.key := Some (normalizeKeyName token cs)\<rparr> \<and>
      parseToken plat cs True st token =
        (if plat = Mac then st\<lparr>meta := True\<rparr> else st\<lparr>ctrl := True\<rparr>)) \<and>
   parsePattern nav ''mod'' (options\<lparr>treatModAsPlatformMeta := Some False\<rparr>) =
     \<lparr>Step.key = Some (Str (if caseSensitive options = Some True then ''mod'' else ''Mod'')),
      ctrl = False, meta = False, shift = False, alt = False, isSequence = False,
      sequence =
        [\<lparr>Step.key = Some (Str (if caseSensitive options = Some True then ''mod'' else ''Mod'')),
          ctrl = False, meta = False, shift = False, alt = False\<rparr>]\<rparr> \<and>
   (treatModAsPlatformMeta options \<noteq> Some False \<longrightarrow>
      Step.key (parsePattern nav ''mod'' options) = None \<and>
      meta (parsePattern nav ''mod'' options) =
        ((case platform options of Some p \<Rightarrow> p | None \<Rightarrow> detectPlatform nav) = Mac) \<and>
      ctrl (parsePattern nav ''mod'' options) =
        ((case platform options of Some p \<Rightarrow> p | None \<Rightarrow> detectPlatform nav) \<noteq> Mac) \<and>
      \<not> shift (parsePattern nav ''mod'' options) \<and>
      \<not> alt (parsePattern nav ''mod'' options))"
proof -
  have a: "toLowerCase token = ''mod'' \<longrightarrow>
      parseToken plat cs False st token = st\<lparr>Step.key := Some (normalizeKeyName token cs)\<rparr> \<and>
      parseToken plat cs True st token =
        (if plat = Mac then st\<lparr>meta := True\<rparr> else st\<lparr>ctrl := True\<rparr>)"
    by (simp add: parseToken_mod)
  have c: "treatModAsPlatformMeta options \<noteq> Some False \<longrightarrow>
      Step.key (parsePattern nav ''mod'' options) = None \<and>
      meta (parsePattern nav ''mod'' options) =
        ((case platform options of Some p \<Rightarrow> p | None \<Rightarrow> detectPlatform nav) = Mac) \<and>
      ctrl (parsePattern nav ''mod'' options) =
        ((case platform options of Some p \<Rightarrow> p | None \<Rightarrow> detectPlatform nav) \<noteq> Mac) \<and>
      \<not> shift (parsePattern nav ''mod'' options) \<and>
      \<not> alt (parsePattern nav ''mod'' options)"
    by (simp add: parse_mod_on)
  from a parse_mod_off [of nav options] c show ?thesis by blast
qed

theorem mod_token_as_key_witness:
  "toLowerCase ''Mod'' = ''mod'' \<and>
   parseToken Linux False False emptyStep ''Mod'' =
     \<lparr>Step.key = Some (Str ''Mod''), ctrl = False, meta = False, shift = False, alt = False\<rparr> \<and>
   parseToken Linux False True emptyStep ''Mod'' =
     \<lparr>Step.key = None, ctrl = True, meta = False, shift = False, alt = False\<rparr> \<and>
   treatModAsPlatformMeta noOptions \<noteq> Some False \<and>
   meta (parsePattern (Some ''MacIntel'') ''mod'' noOptions) \<and>
   \<not> ctrl (parsePattern (Some ''MacIntel'') ''mod'' noOptions) \<and>
   Step.key (parsePattern (Some ''MacIntel'') ''mod'' noOptions) = None"
  using mod_token_as_key [of "''Mod''" Linux False emptyStep "Some ''MacIntel''" noOptions]
  by (simp add: noOptions_def emptyStep_def detect_mac toLowerCase_def toLowerChar_def
      isUpper_def normalizeKeyName_def trim_def isSpace_def lookup_def specialKeyMap_def
      objectPrototype_def toUpperChar_def isLower_def)

subsection \<open>Formatting\<close>








subsection \<open>The sequence handler\<close>

lemma elapse_none: "timers w = [] \<Longrightarrow> elapse d w = w"
  by (simp add: elapse_def)

lemma elapse_due:
  "timers w = [(t, r)] \<Longrightarrow> r \<le> d \<Longrightarrow> 0 < d \<Longrightarrow>
   elapse d w = w\<lparr>index := 0, timer := None, timers := []\<rparr>"
  by (simp add: elapse_def timeoutCallback_def)

lemma elapse_waiting:
  "timers w = [(t, r)] \<Longrightarrow> \<not> r \<le> d \<Longrightarrow> elapse d w = w\<lparr>timers := [(t, r - d)]\<rparr>"
  by (simp add: elapse_def)

lemma wellFormed_elapse:
  assumes "wellFormed seq w"
  shows "wellFormed seq (elapse d w)"
proof (cases "d = 0")
  case True
  with assms show ?thesis by (simp add: elapse_def)
next
  case positive: False
  show ?thesis
  proof (cases "timer w")
    case None
    with assms have "timers w = []" by (simp add: wellFormed_def)
    with assms show ?thesis by (simp add: elapse_none)
  next
    case (Some t)
    with assms obtain r where tr: "timers w = [(t, r)]"
      by (cases "timers w") (auto simp: wellFormed_def)
    show ?thesis
    proof (cases "r \<le> d")
      case True
      with assms tr positive show ?thesis by (auto simp: elapse_due wellFormed_def)
    next
      case False
      with assms tr Some show ?thesis by (simp add: elapse_waiting wellFormed_def)
    qed
  qed
qed

lemma wellFormed_handler:
  "wellFormed seq w \<Longrightarrow> wellFormed seq (snd (sequenceHandler seq ms options event w))"
  by (auto simp: wellFormed_def sequenceHandler_def cancelPending_def clearTimeout_def
      setTimeout_def Let_def split: option.splits sum.splits)

lemma reachable_wellFormed: "reachable seq ms options w \<Longrightarrow> seq \<noteq> [] \<Longrightarrow> wellFormed seq w"
proof (induction rule: reachable.induct)
  case (start n)
  then show ?case by (simp add: wellFormed_def)
next
  case (keyDown w event)
  then show ?case by (simp add: wellFormed_handler)
next
  case (idle w d)
  then show ?case by (simp add: wellFormed_elapse)
qed

lemma handler_mismatch:
  assumes "wellFormed seq w"
    and "stepMatches (seq ! index w) event
           (case caseSensitive options of Some b \<Rightarrow> b | None \<Rightarrow> False) = Inr False"
  shows "sequenceHandler seq ms options event w =
           (Quiet, w\<lparr>index := 0, timer := None, timers := []\<rparr>)"
  using assms
  by (cases w)
     (auto simp: wellFormed_def sequenceHandler_def cancelPending_def clearTimeout_def Let_def
        split: option.splits)

lemma timerDelay_600: "timerDelay 600 = 600"
  by (simp add: timerDelay_def)

lemma timerDelay_0: "timerDelay 0 = 0"
  by (simp add: timerDelay_def)

lemmas step_defs = stepMatches_def keyMatch_def expectedKey_def eventKeyComparable_def
  toLowerCase_def toLowerChar_def isUpper_def keyStep_def press_def Let_def

lemma step_g_g: "stepMatches (keyStep ''g'') (press ''g'') cs = Inr True"
  by (simp add: step_defs)

lemma step_g_h: "stepMatches (keyStep ''g'') (press ''h'') cs = Inr False"
  by (simp add: step_defs)

lemma step_h_g: "stepMatches (keyStep ''h'') (press ''g'') cs = Inr False"
  by (simp add: step_defs)

lemma step_h_h: "stepMatches (keyStep ''h'') (press ''h'') cs = Inr True"
  by (simp add: step_defs)

lemma step_g_k: "stepMatches (keyStep ''g'') (press ''k'') cs = Inr False"
  by (simp add: step_defs)

lemma step_constructor:
  "stepMatches
     \<lparr>Step.key = Some ObjectConstructor, ctrl = False, meta = False, shift = False,
      alt = False\<rparr> event False = Inl TypeError"
  by (simp add: stepMatches_def keyMatch_def expectedKey_def)

lemma create_config_g_g:
  "createHotkeyHandler nav (Config (Single ''g g'') t) options =
     Inr (SequenceHandler [keyStep ''g'', keyStep ''g'']
            (case t of Some n \<Rightarrow> n | None \<Rightarrow> 600))"
  by (simp add: createHotkeyHandler_def parse_g_g)

lemma create_plain_g_g:
  "createHotkeyHandler nav (Plain (Single ''g g'')) options =
     Inr (SequenceHandler [keyStep ''g'', keyStep ''g''] 0)"
  by (simp add: createHotkeyHandler_def parse_g_g)

lemma create_config_g_h:
  "createHotkeyHandler nav (Config (Single ''g h'') t) options =
     Inr (SequenceHandler [keyStep ''g'', keyStep ''h'']
            (case t of Some n \<Rightarrow> n | None \<Rightarrow> 600))"
  by (simp add: createHotkeyHandler_def parse_g_h)

lemma parse_g_constructor:
  "parsePattern nav ''g constructor'' options =
     \<lparr>Step.key = None, ctrl = False, meta = False, shift = False, alt = False,
      isSequence = True,
      sequence =
        [keyStep ''g'',
         \<lparr>Step.key = Some ObjectConstructor, ctrl = False, meta = False, shift = False,
          alt = False\<rparr>]\<rparr>"
  by (simp add: parse_defs keyStep_def split: option.splits)

lemma create_g_constructor:
  "createHotkeyHandler nav (Config (Single ''g constructor'') t) options =
     Inr (SequenceHandler
            [keyStep ''g'',
             \<lparr>Step.key = Some ObjectConstructor, ctrl = False, meta = False, shift = False,
              alt = False\<rparr>]
            (case t of Some n \<Rightarrow> n | None \<Rightarrow> 600))"
  by (simp add: createHotkeyHandler_def parse_g_constructor)

lemmas run_defs = sequenceHandler_def cancelPending_def clearTimeout_def setTimeout_def
  elapse_def timeoutCallback_def initial_def Let_def

text \<open>
  Claim C1 says that in every reachable state and for every event the handler takes one of
  three transitions, and that an event which does not match the current step sets the index
  to 0 and cancels the pending timeout. The handler computes the comparison before it
  branches, and the comparison throws for a step whose key token is \<open>constructor\<close>: the
  table lookup of \<^verbatim>\<open>normalizeKeyName\<close> finds the function \<^verbatim>\<open>Object\<close>, which has length 1 and
  no \<^verbatim>\<open>toLowerCase\<close>. For the sequence \<open>g constructor\<close>, the press \<open>g\<close> leads to index 1 with a
  timeout pending; there the press \<open>x\<close>, which is not the key of the second step, raises a
  \<^verbatim>\<open>TypeError\<close> and leaves the index at 1 and the timeout pending.
\<close>

theorem sequence_mismatch_throws:
  "createHotkeyHandler None (Config (Single ''g constructor'') None) noOptions =
     Inr (SequenceHandler
            [keyStep ''g'',
             \<lparr>Step.key = Some ObjectConstructor, ctrl = False, meta = False, shift = False,
              alt = False\<rparr>] 600) \<and>
   run None noOptions
     (SequenceHandler
        [keyStep ''g'',
         \<lparr>Step.key = Some ObjectConstructor, ctrl = False, meta = False, shift = False,
          alt = False\<rparr>] 600)
     [KeyDown (press ''g'')] initial =
     ([Quiet], \<lparr>index = 1, timer = Some 1, timers = [(1, 600)], nextTimerId = 2\<rparr>) \<and>
   sequenceHandler
     [keyStep ''g'',
      \<lparr>Step.key = Some ObjectConstructor, ctrl = False, meta = False, shift = False,
       alt = False\<rparr>] 600 noOptions (press ''x'')
     \<lparr>index = 1, timer = Some 1, timers = [(1, 600)], nextTimerId = 2\<rparr> =
     (Raised TypeError, \<lparr>index = 1, timer = Some 1, timers = [(1, 600)], nextTimerId = 2\<rparr>)"
  by (simp add: create_g_constructor run_defs step_g_g step_constructor timerDelay_600
      noOptions_def)

lemma run_g_g_h_direct:
  "invocations (fst (run nav options (SequenceHandler [keyStep ''g'', keyStep ''h''] ms)
     [KeyDown (press ''g''), KeyDown (press ''g''), KeyDown (press ''h'')] initial)) = []"
  by (simp add: run_defs step_g_g step_h_g step_g_h)

lemma run_g_g_h_delays:
  "d1 < timerDelay ms \<Longrightarrow>
   invocations (fst (run nav options (SequenceHandler [keyStep ''g'', keyStep ''h''] ms)
     [KeyDown (press ''g''), Elapse d1, KeyDown (press ''g''), Elapse d2,
      KeyDown (press ''h'')] initial)) = []"
  by (simp add: run_defs step_g_g step_h_g step_g_h)

text \<open>
  Claim C10 says that for the sequence \<open>g h\<close> the presses \<open>g\<close>, \<open>g\<close>, \<open>h\<close> never invoke the
  callback. When the timeout set by the first \<open>g\<close> fires before the second \<open>g\<close> arrives, the
  second \<open>g\<close> finds the index at 0 and starts a new attempt, which \<open>h\<close> completes: with a
  window of 600 milliseconds and 700 milliseconds between the two \<open>g\<close> presses the callback
  is invoked with \<open>h\<close>.
\<close>

theorem new_attempt_after_deadline_counterexample:
  "createHotkeyHandler None (Config (Single ''g h'') (Some 600)) noOptions =
     Inr (SequenceHandler [keyStep ''g'', keyStep ''h''] 600) \<and>
   invocations (fst (run None noOptions (SequenceHandler [keyStep ''g'', keyStep ''h''] 600)
     [KeyDown (press ''g''), Elapse 700, KeyDown (press ''g''), KeyDown (press ''h'')]
     initial)) = [press ''h'']"
  by (simp add: create_config_g_h run_defs step_g_g step_h_h timerDelay_600)

text \<open>
  Claim C10, amended. An event whose comparison with the current step returns false while
  the index is positive is used up by the reset: the index is 0 afterwards, no timeout is
  pending and the callback is not invoked, also when the same event matches the first step
  of the sequence (the handler does not compare it with the first step). So for the
  sequence \<open>g h\<close> the presses \<open>g\<close>, \<open>g\<close>, \<open>h\<close> do not invoke the callback when the second \<open>g\<close>
  arrives while the progress of the first is still there: back to back, or before the
  timeout set by the first \<open>g\<close> has fired.
\<close>

theorem failed_step_not_retried:
  assumes "reachable seq ms options w" and "seq \<noteq> []"
    and "cs = (case caseSensitive options of Some b \<Rightarrow> b | None \<Rightarrow> False)"
  shows
  "(0 < index w \<and> stepMatches (seq ! index w) event cs = Inr False \<longrightarrow>
      fst (sequenceHandler seq ms options event w) = Quiet \<and>
      index (snd (sequenceHandler seq ms options event w)) = 0 \<and>
      timer (snd (sequenceHandler seq ms options event w)) = None \<and>
      timers (snd (sequenceHandler seq ms options event w)) = []) \<and>
   createHotkeyHandler nav (Config (Single ''g h'') (Some window)) options =
     Inr (SequenceHandler [keyStep ''g'', keyStep ''h''] window) \<and>
   invocations (fst (run nav options (SequenceHandler [keyStep ''g'', keyStep ''h''] window)
     [KeyDown (press ''g''), KeyDown (press ''g''), KeyDown (press ''h'')] initial)) = [] \<and>
   (\<forall>d1 d2. d1 < timerDelay window \<longrightarrow>
      invocations (fst (run nav options (SequenceHandler [keyStep ''g'', keyStep ''h''] window)
        [KeyDown (press ''g''), Elapse d1, KeyDown (press ''g''), Elapse d2,
         KeyDown (press ''h'')] initial)) = [])"
proof -
  from assms(1,2) have wf: "wellFormed seq w" by (rule reachable_wellFormed)
  have reset: "0 < index w \<and> stepMatches (seq ! index w) event cs = Inr False \<longrightarrow>
      fst (sequenceHandler seq ms options event w) = Quiet \<and>
      index (snd (sequenceHandler seq ms options event w)) = 0 \<and>
      timer (snd (sequenceHandler seq ms options event w)) = None \<and>
      timers (snd (sequenceHandler seq ms options event w)) = []"
    using wf assms(3) by (simp add: handler_mismatch)
  have built: "createHotkeyHandler nav (Config (Single ''g h'') (Some window)) options =
     Inr (SequenceHandler [keyStep ''g'', keyStep ''h''] window)"
    by (simp add: create_config_g_h)
  have direct: "invocations (fst (run nav options
     (SequenceHandler [keyStep ''g'', keyStep ''h''] window)
     [KeyDown (press ''g''), KeyDown (press ''g''), KeyDown (press ''h'')] initial)) = []"
    by (rule run_g_g_h_direct)
  have delays: "\<forall>d1 d2. d1 < timerDelay window \<longrightarrow>
      invocations (fst (run nav options (SequenceHandler [keyStep ''g'', keyStep ''h''] window)
        [KeyDown (press ''g''), Elapse d1, KeyDown (press ''g''), Elapse d2,
         KeyDown (press ''h'')] initial)) = []"
    using run_g_g_h_delays by blast
  from reset built direct delays show ?thesis
    by (intro conjI) assumption+
qed

theorem failed_step_not_retried_witness:
  "reachable [keyStep ''g'', keyStep ''h''] 600 noOptions
     \<lparr>index = 1, timer = Some 1, timers = [(1, 600)], nextTimerId = 2\<rparr> \<and>
   stepMatches ([keyStep ''g'', keyStep ''h''] ! 1) (press ''g'') False = Inr False \<and>
   stepMatches ([keyStep ''g'', keyStep ''h''] ! 0) (press ''g'') False = Inr True \<and>
   fst (sequenceHandler [keyStep ''g'', keyStep ''h''] 600 noOptions (press ''g'')
     \<lparr>index = 1, timer = Some 1, timers = [(1, 600)], nextTimerId = 2\<rparr>) = Quiet \<and>
   index (snd (sequenceHandler [keyStep ''g'', keyStep ''h''] 600 noOptions (press ''g'')
     \<lparr>index = 1, timer = Some 1, timers = [(1, 600)], nextTimerId = 2\<rparr>)) = 0 \<and>
   100 < timerDelay 600 \<and>
   invocations (fst (run None noOptions (SequenceHandler [keyStep ''g'', keyStep ''h''] 600)
     [KeyDown (press ''g''), Elapse 100, KeyDown (press ''g''), Elapse 100,
      KeyDown (press ''h'')] initial)) = []"
proof -
  have r0: "reachable [keyStep ''g'', keyStep ''h''] 600 noOptions initial"
    unfolding initial_def by (rule reachable.start) simp
  have s1: "snd (sequenceHandler [keyStep ''g'', keyStep ''h''] 600 noOptions (press ''g'')
      initial) = \<lparr>index = 1, timer = Some 1, timers = [(1, 600)], nextTimerId = 2\<rparr>"
    by (simp add: run_defs step_g_g noOptions_def timerDelay_600)
  have r1: "reachable [keyStep ''g'', keyStep ''h''] 600 noOptions
     \<lparr>index = 1, timer = Some 1, timers = [(1, 600)], nextTimerId = 2\<rparr>"
    using reachable.keyDown [OF r0, of "press ''g''"] by (simp add: s1)
  have cs: "False = (case caseSensitive noOptions of Some b \<Rightarrow> b | None \<Rightarrow> False)"
    by (simp add: noOptions_def)
  have ne: "[keyStep ''g'', keyStep ''h''] \<noteq> []" by simp
  note t = failed_step_not_retried [OF r1 ne cs, of "press ''g''" None 600]
  from r1 t show ?thesis
    by (simp add: step_g_g step_h_g timerDelay_600)
qed

subsection \<open>A timeout of zero\<close>

text \<open>
  Claim C3 says that a handler whose \<open>sequenceTimeoutMs\<close> is 0 enforces no timeout, so
  that a stream of matching events invokes the callback whatever the delay between the
  steps. For the plain pattern \<open>g g\<close> \<^verbatim>\<open>createHotkeyHandler\<close> builds the sequence handler with
  a window of 0 and the handler sets its timeout with that delay. Two \<open>g\<close> presses one
  second apart: the timeout set by the first press fires in between, the second press
  starts again at the first step, and the callback is not invoked.
\<close>

theorem zero_timeout_never_completes:
  "createHotkeyHandler None (Plain (Single ''g g'')) noOptions =
     Inr (SequenceHandler [keyStep ''g'', keyStep ''g''] 0) \<and>
   stepMatches ([keyStep ''g'', keyStep ''g''] ! 0) (press ''g'') False = Inr True \<and>
   stepMatches ([keyStep ''g'', keyStep ''g''] ! 1) (press ''g'') False = Inr True \<and>
   run None noOptions (SequenceHandler [keyStep ''g'', keyStep ''g''] 0)
     [KeyDown (press ''g''), Elapse 1000, KeyDown (press ''g'')] initial =
     ([Quiet, Quiet], \<lparr>index = 1, timer = Some 2, timers = [(2, 0)], nextTimerId = 3\<rparr>)"
  by (simp add: create_plain_g_g run_defs step_g_g timerDelay_0)

subsection \<open>A list that mixes simple patterns and sequences\<close>

lemma find_list_ex: "find P xs = Some x \<Longrightarrow> list_ex P xs \<and> P x"
  by (induction xs) (auto split: if_splits)

lemma create_first_sequence:
  assumes "find (\<lambda>p. isSequence (parsePattern nav p options)) ps = Some firstSeq"
  shows "createHotkeyHandler nav (Config (Multiple ps) t) options =
           Inr (SequenceHandler (sequence (parsePattern nav firstSeq options))
                  (case t of Some n \<Rightarrow> n | None \<Rightarrow> 600))"
    and "createHotkeyHandler nav (Plain (Multiple ps)) options =
           Inr (SequenceHandler (sequence (parsePattern nav firstSeq options)) 0)"
    and "createHotkeyHandler nav (Config (Single firstSeq) t) options =
           Inr (SequenceHandler (sequence (parsePattern nav firstSeq options))
                  (case t of Some n \<Rightarrow> n | None \<Rightarrow> 600))"
    and "createHotkeyHandler nav (Plain (Single firstSeq)) options =
           Inr (SequenceHandler (sequence (parsePattern nav firstSeq options)) 0)"
  using find_list_ex [OF assms] assms
  by (simp_all add: createHotkeyHandler_def Let_def)

lemma sequence_long:
  "isSequence (parsePattern nav p options) \<Longrightarrow> 2 \<le> length (sequence (parsePattern nav p options))"
  by (simp add: parsePattern_def Let_def split: if_splits)

lemma first_event_quiet:
  "2 \<le> length seq \<Longrightarrow> fst (sequenceHandler seq ms options event initial) \<noteq> Invoked event"
  by (auto simp: sequenceHandler_def initial_def setTimeout_def Let_def split: sum.splits prod.splits)

lemma create_k_g_g:
  "createHotkeyHandler nav (Config (Multiple [''k'', ''g g'']) t) options =
     Inr (SequenceHandler [keyStep ''g'', keyStep ''g'']
            (case t of Some n \<Rightarrow> n | None \<Rightarrow> 600))"
  by (simp add: createHotkeyHandler_def parse_k parse_g_g)

lemma match_k: "matchHotkey nav (press ''k'') ''k'' options = Inr True"
  by (simp add: parse_k match_defs press_def split: option.splits)

lemma run_k:
  "invocations (fst (run nav options (SequenceHandler [keyStep ''g'', keyStep ''g''] ms)
     [KeyDown (press ''k'')] initial)) = []"
  by (simp add: run_defs step_g_k)

text \<open>
  Claim C5. When at least one pattern of the list parses as a sequence, the handler tracks
  the first such pattern of the list and nothing else: it is the handler that this one
  pattern alone gives, so no simple pattern of the list has any effect, and no single event
  invokes the callback from the initial state. With the list \<open>k\<close>, \<open>g g\<close> the press \<open>k\<close>,
  which matches the simple pattern \<open>k\<close>, invokes nothing.
\<close>

theorem first_sequence_only:
  "(find (\<lambda>p. isSequence (parsePattern nav p options)) ps = Some firstSeq \<longrightarrow>
      createHotkeyHandler nav (Config (Multiple ps) t) options =
        Inr (SequenceHandler (sequence (parsePattern nav firstSeq options))
               (case t of Some n \<Rightarrow> n | None \<Rightarrow> 600)) \<and>
      createHotkeyHandler nav (Config (Multiple ps) t) options =
        createHotkeyHandler nav (Config (Single firstSeq) t) options \<and>
      createHotkeyHandler nav (Plain (Multiple ps)) options =
        createHotkeyHandler nav (Plain (Single firstSeq)) options \<and>
      (\<forall>event. fst (sequenceHandler (sequence (parsePattern nav firstSeq options))
                     (case t of Some n \<Rightarrow> n | None \<Rightarrow> 600) options event initial)
                \<noteq> Invoked event)) \<and>
   createHotkeyHandler nav (Config (Multiple [''k'', ''g g'']) t) options =
     Inr (SequenceHandler [keyStep ''g'', keyStep ''g'']
            (case t of Some n \<Rightarrow> n | None \<Rightarrow> 600)) \<and>
   matchHotkey nav (press ''k'') ''k'' options = Inr True \<and>
   invocations (fst (run nav options
     (SequenceHandler [keyStep ''g'', keyStep ''g''] (case t of Some n \<Rightarrow> n | None \<Rightarrow> 600))
     [KeyDown (press ''k'')] initial)) = []"
proof -
  have general: "find (\<lambda>p. isSequence (parsePattern nav p options)) ps = Some firstSeq \<longrightarrow>
      createHotkeyHandler nav (Config (Multiple ps) t) options =
        Inr (SequenceHandler (sequence (parsePattern nav firstSeq options))
               (case t of Some n \<Rightarrow> n | None \<Rightarrow> 600)) \<and>
      createHotkeyHandler nav (Config (Multiple ps) t) options =
        createHotkeyHandler nav (Config (Single firstSeq) t) options \<and>
      createHotkeyHandler nav (Plain (Multiple ps)) options =
        createHotkeyHandler nav (Plain (Single firstSeq)) options \<and>
      (\<forall>event. fst (sequenceHandler (sequence (parsePattern nav firstSeq options))
                     (case t of Some n \<Rightarrow> n | None \<Rightarrow> 600) options event initial)
                \<noteq> Invoked event)"
  proof
    assume f: "find (\<lambda>p. isSequence (parsePattern nav p options)) ps = Some firstSeq"
    from find_list_ex [OF f] have "isSequence (parsePattern nav firstSeq options)" by simp
    then have "2 \<le> length (sequence (parsePattern nav firstSeq options))"
      by (rule sequence_long)
    then have "\<forall>event. fst (sequenceHandler (sequence (parsePattern nav firstSeq options))
                     (case t of Some n \<Rightarrow> n | None \<Rightarrow> 600) options event initial)
                \<noteq> Invoked event"
      using first_event_quiet by blast
    with create_first_sequence [OF f]
    show "createHotkeyHandler nav (Config (Multiple ps) t) options =
        Inr (SequenceHandler (sequence (parsePattern nav firstSeq options))
               (case t of Some n \<Rightarrow> n | None \<Rightarrow> 600)) \<and>
      createHotkeyHandler nav (Config (Multiple ps) t) options =
        createHotkeyHandler nav (Config (Single firstSeq) t) options \<and>
      createHotkeyHandler nav (Plain (Multiple ps)) options =
        createHotkeyHandler nav (Plain (Single firstSeq)) options \<and>
      (\<forall>event. fst (sequenceHandler (sequence (parsePattern nav firstSeq options))
                     (case t of Some n \<Rightarrow> n | None \<Rightarrow> 600) options event initial)
                \<noteq> Invoked event)"
      by simp
  qed
  from general create_k_g_g [of nav t options] match_k [of nav options]
    run_k [of nav options "case t of Some n \<Rightarrow> n | None \<Rightarrow> 600"]
  show ?thesis by (intro conjI) assumption+
qed

theorem first_sequence_only_witness:
  "find (\<lambda>p. isSequence (parsePattern None p noOptions)) [''k'', ''g g''] = Some ''g g'' \<and>
   createHotkeyHandler None (Config (Multiple [''k'', ''g g'']) None) noOptions =
     createHotkeyHandler None (Config (Single ''g g'') None) noOptions \<and>
   createHotkeyHandler None (Config (Multiple [''k'', ''g g'']) None) noOptions =
     Inr (SequenceHandler [keyStep ''g'', keyStep ''g''] 600) \<and>
   fst (sequenceHandler [keyStep ''g'', keyStep ''g''] 600 noOptions (press ''k'') initial)
     \<noteq> Invoked (press ''k'')"
  using first_sequence_only [of None noOptions "[''k'', ''g g'']" "''g g''" None]
  by (simp add: parse_k parse_g_g create_config_g_g)

end
